theory Spec2Isabelle
  imports Main
begin

section \<open>The upload-and-recognise client (web_app/frontend/src/App.vue)\<close>

text \<open>
  The script block of \<^verbatim>\<open>App.vue\<close> holds seven reactive cells, two computed values and
  four handlers. The model keeps one record for the cells, and a trace of the calls the
  handlers make on the platform (object URLs, notifications, the HTTP client, the console,
  the clipboard), in the order they are made. Every handler is a function from state to
  state that changes the cells it assigns and appends the calls it makes.
\<close>

subsection \<open>JavaScript values\<close>

text \<open>
  What a parsed response body can hold, plus \<^verbatim>\<open>undefined\<close>. The handlers do two
  things with a number: they test it for truthiness and they convert it to a string. A
  number is therefore carried as \<open>JNum nz s\<close>, where \<open>nz\<close> says that it is neither zero
  nor NaN and \<open>s\<close> is its string form; no arithmetic is modelled. An object is the list
  of its own properties in the order they were written; a later property of the same
  name overrides an earlier one, as \<^verbatim>\<open>JSON.parse\<close> does.
\<close>

datatype js =
    JUndefined
  | JNull
  | JBool bool
  | JNum bool string
  | JStr string
  | JArr "js list"
  | JObj "(string \<times> js) list"

text \<open>ToBoolean.\<close>

fun truthy :: "js \<Rightarrow> bool" where
  "truthy JUndefined = False"
| "truthy JNull = False"
| "truthy (JBool b) = b"
| "truthy (JNum nz s) = nz"
| "truthy (JStr s) = (s \<noteq> [])"
| "truthy (JArr xs) = True"
| "truthy (JObj kvs) = True"

text \<open>\<^verbatim>\<open>a && b\<close> and \<^verbatim>\<open>a || b\<close> return one of their operands.\<close>

definition js_and :: "js \<Rightarrow> js \<Rightarrow> js" where
  "js_and a b = (if truthy a then b else a)"

definition js_or :: "js \<Rightarrow> js \<Rightarrow> js" where
  "js_or a b = (if truthy a then a else b)"

text \<open>
  Reading the property \<^verbatim>\<open>result\<close> or \<^verbatim>\<open>detail\<close> of a value that is neither
  \<^verbatim>\<open>undefined\<close> nor \<^verbatim>\<open>null\<close>: an object gives its property if it has one, and every
  other value gives \<^verbatim>\<open>undefined\<close> (strings, numbers, booleans and arrays have no built-in
  property of either name). The handlers guard every read so that it is never made on
  \<^verbatim>\<open>undefined\<close> or \<^verbatim>\<open>null\<close>.
\<close>

fun get_prop :: "string \<Rightarrow> js \<Rightarrow> js" where
  "get_prop k (JObj kvs) = (case map_of (rev kvs) k of None \<Rightarrow> JUndefined | Some v \<Rightarrow> v)"
| "get_prop k v = JUndefined"

text \<open>\<^verbatim>\<open>a?.k\<close>: \<^verbatim>\<open>undefined\<close> when \<^verbatim>\<open>a\<close> is \<^verbatim>\<open>undefined\<close> or \<^verbatim>\<open>null\<close>.\<close>

fun opt_prop :: "string \<Rightarrow> js \<Rightarrow> js" where
  "opt_prop k JUndefined = JUndefined"
| "opt_prop k JNull = JUndefined"
| "opt_prop k v = get_prop k v"

text \<open>
  ToString, as string concatenation and \<^verbatim>\<open>writeText\<close> apply it; \<open>None\<close> is the
  TypeError it throws. An array is the comma-separated strings of its elements, with
  nothing for \<^verbatim>\<open>undefined\<close> and \<^verbatim>\<open>null\<close>. An object parsed from a response has no
  callable property: when it has an own property \<^verbatim>\<open>toString\<close> no conversion method is
  left and the conversion throws, otherwise \<^verbatim>\<open>Object.prototype.toString\<close> answers.
\<close>

fun join_comma :: "string list \<Rightarrow> string" where
  "join_comma [] = []"
| "join_comma [x] = x"
| "join_comma (x # y # ys) = x @ '','' @ join_comma (y # ys)"

fun to_string :: "js \<Rightarrow> string option" where
  "to_string JUndefined = Some ''undefined''"
| "to_string JNull = Some ''null''"
| "to_string (JBool b) = Some (if b then ''true'' else ''false'')"
| "to_string (JNum nz s) = Some s"
| "to_string (JStr s) = Some s"
| "to_string (JArr xs) =
     map_option join_comma
       (those (map (\<lambda>x. if x = JUndefined \<or> x = JNull then Some [] else to_string x) xs))"
| "to_string (JObj kvs) =
     (if ''toString'' \<in> fst ` set kvs then None else Some ''[object Object]'')"

subsection \<open>Files, requests and platform calls\<close>

type_synonym blob = string

text \<open>
  An entry of the upload component's file list: \<^verbatim>\<open>raw\<close> is the browser's File object,
  absent on an entry that was not picked from disk.
\<close>

record upload_file =
  name :: string
  raw :: "blob option"

datatype form_value = FileField blob | TextField string

text \<open>
  \<^verbatim>\<open>FormData.append(name, value)\<close> stores a File as it is and any other value as its
  string.
\<close>

fun file_field :: "blob option \<Rightarrow> form_value" where
  "file_field (Some b) = FileField b"
| "file_field None = TextField ''undefined''"

record request =
  url :: string
  form :: "(string \<times> form_value) list"
  headers :: "(string \<times> string) list"

text \<open>
  A rejected \<^verbatim>\<open>axios.post\<close>: the error's message, and the body of the server's response
  when one was received (a non-2xx status); no response on a network failure.
\<close>

record axios_error =
  message :: string
  response :: "js option"

datatype outcome = Resolved js | Rejected axios_error

datatype level = MsgSuccess | MsgWarning | MsgError

text \<open>
  The calls a handler makes, and \<open>Uncaught\<close> for an exception that leaves the handler:
  no code of the script catches it and no notification is shown for it.
\<close>

datatype fault = TypeError

datatype effect =
    CreateObjectURL blob string
  | RevokeObjectURL string
  | ElMessage level string
  | AxiosPost request
  | ConsoleError axios_error
  | ClipboardWriteText string
  | Uncaught fault

subsection \<open>The reactive cells\<close>

record app =
  uploadUrl :: string
  fileList :: "upload_file list"
  selectedMode :: string
  loading :: bool
  result :: js
  rawResult :: js
  activeResultTab :: string
  trace :: "effect list"

definition init :: app where
  "init = \<lparr> uploadUrl = [], fileList = [], selectedMode = ''markdown'', loading = False,
            result = JStr [], rawResult = JStr [], activeResultTab = ''preview'',
            trace = [] \<rparr>"

definition emit :: "effect list \<Rightarrow> app \<Rightarrow> app" where
  "emit es s = s\<lparr> trace := trace s @ es \<rparr>"

text \<open>
  The literals the handlers pass to \<^verbatim>\<open>ElMessage\<close>, as the UTF-8 bytes of the source
  text: "select an image first", "recognition succeeded", "no recognition result
  returned", "recognition failed: ", "copied", "copy failed".
\<close>

definition msg_select_image :: string where
  "msg_select_image =
     [CHR 0xE8, CHR 0xAF, CHR 0xB7, CHR 0xE5, CHR 0x85, CHR 0x88, CHR 0xE9, CHR 0x80,
      CHR 0x89, CHR 0xE6, CHR 0x8B, CHR 0xA9, CHR 0xE4, CHR 0xB8, CHR 0x80, CHR 0xE5,
      CHR 0xBC, CHR 0xA0, CHR 0xE5, CHR 0x9B, CHR 0xBE, CHR 0xE7, CHR 0x89, CHR 0x87]"

definition msg_recognised :: string where
  "msg_recognised =
     [CHR 0xE8, CHR 0xAF, CHR 0x86, CHR 0xE5, CHR 0x88, CHR 0xAB, CHR 0xE6, CHR 0x88,
      CHR 0x90, CHR 0xE5, CHR 0x8A, CHR 0x9F]"

definition msg_no_result :: string where
  "msg_no_result =
     [CHR 0xE6, CHR 0x9C, CHR 0xAA, CHR 0xE8, CHR 0xBF, CHR 0x94, CHR 0xE5, CHR 0x9B,
      CHR 0x9E, CHR 0xE8, CHR 0xAF, CHR 0x86, CHR 0xE5, CHR 0x88, CHR 0xAB, CHR 0xE7,
      CHR 0xBB, CHR 0x93, CHR 0xE6, CHR 0x9E, CHR 0x9C]"

definition msg_failed :: string where
  "msg_failed =
     [CHR 0xE8, CHR 0xAF, CHR 0x86, CHR 0xE5, CHR 0x88, CHR 0xAB, CHR 0xE5, CHR 0xA4,
      CHR 0xB1, CHR 0xE8, CHR 0xB4, CHR 0xA5, CHR 0x3A, CHR 0x20]"

definition msg_copied :: string where
  "msg_copied =
     [CHR 0xE5, CHR 0xA4, CHR 0x8D, CHR 0xE5, CHR 0x88, CHR 0xB6, CHR 0xE6, CHR 0x88,
      CHR 0x90, CHR 0xE5, CHR 0x8A, CHR 0x9F]"

definition msg_copy_failed :: string where
  "msg_copy_failed =
     [CHR 0xE5, CHR 0xA4, CHR 0x8D, CHR 0xE5, CHR 0x88, CHR 0xB6, CHR 0xE5, CHR 0xA4,
      CHR 0xB1, CHR 0xE8, CHR 0xB4, CHR 0xA5]"

subsection \<open>Object URLs\<close>

text \<open>
  \<^verbatim>\<open>URL.createObjectURL\<close> registers the blob with the document and returns a URL no
  earlier call returned; the URL stays registered until \<^verbatim>\<open>URL.revokeObjectURL\<close> is
  called on it. The model numbers the URLs in the order they are created.
\<close>

fun created_urls :: "effect list \<Rightarrow> string list" where
  "created_urls [] = []"
| "created_urls (CreateObjectURL b u # es) = u # created_urls es"
| "created_urls (e # es) = created_urls es"

fun revoked_urls :: "effect list \<Rightarrow> string list" where
  "revoked_urls [] = []"
| "revoked_urls (RevokeObjectURL u # es) = u # revoked_urls es"
| "revoked_urls (e # es) = revoked_urls es"

text \<open>The decimal digits of the number of a URL.\<close>

fun digits :: "nat \<Rightarrow> string" where
  "digits n =
     (if n < 10 then [char_of (48 + n)]
      else digits (n div 10) @ [char_of (48 + n mod 10)])"

declare digits.simps [simp del]

definition blob_url :: "nat \<Rightarrow> string" where
  "blob_url n = ''blob:'' @ digits n"

definition createObjectURL :: "blob \<Rightarrow> app \<Rightarrow> string \<times> app" where
  "createObjectURL b s =
     (let u = blob_url (length (created_urls (trace s)))
      in (u, emit [CreateObjectURL b u] s))"

subsection \<open>The computed values and the handlers\<close>

text \<open>
  \<^verbatim>\<open>imageUrl\<close> (lines 16 to 21). The getter of a computed value runs when the value is
  read; one application of the function is one run of the getter. Line 16 is the only
  occurrence of \<^verbatim>\<open>imageUrl\<close> in the file: neither the template nor a handler reads the
  value, so no event of a session runs the getter. The picture the page shows for the
  selected file is drawn by the upload component (\<^verbatim>\<open>list-type="picture"\<close>), which is
  not part of the repository.
\<close>

definition imageUrl :: "app \<Rightarrow> string \<times> app" where
  "imageUrl s =
     (case fileList s of
        [] \<Rightarrow> ([], s)
      | f # fs \<Rightarrow> (case raw f of None \<Rightarrow> ([], s) | Some b \<Rightarrow> createObjectURL b s))"

text \<open>
  \<^verbatim>\<open>renderedMarkdown\<close> (lines 23 to 25) applies the function \<^verbatim>\<open>marked\<close> of the package
  of that name to the cell \<^verbatim>\<open>result\<close>. The package is not part of the repository: the
  transform is a parameter here.
\<close>

definition renderedMarkdown :: "(js \<Rightarrow> 'html) \<Rightarrow> app \<Rightarrow> 'html" where
  "renderedMarkdown marked s = marked (result s)"

text \<open>\<^verbatim>\<open>handleUploadChange\<close> (lines 27 to 31) and \<^verbatim>\<open>handleRemove\<close> (lines 33 to 37).\<close>

definition handleUploadChange :: "upload_file \<Rightarrow> app \<Rightarrow> app" where
  "handleUploadChange file s = s\<lparr> fileList := [file], result := JStr [], rawResult := JStr [] \<rparr>"

definition handleRemove :: "app \<Rightarrow> app" where
  "handleRemove s = s\<lparr> fileList := [], result := JStr [], rawResult := JStr [] \<rparr>"

text \<open>
  \<^verbatim>\<open>submitUpload\<close> (lines 39 to 70) is asynchronous. It runs to its \<^verbatim>\<open>await\<close> in one
  piece (\<open>submitUpload_begin\<close>: either it has returned, or it has sent the request and
  waits), and from the settlement of the request to its end in another
  (\<open>submitUpload_resume\<close>); other handlers may run in between. \<open>submitUpload\<close> is the
  invocation with nothing in between. In the \<^verbatim>\<open>catch\<close> block the concatenation of line 66
  converts the detail to a string; when that conversion throws, the error has been logged,
  the \<^verbatim>\<open>finally\<close> block still runs and the exception leaves the handler.
\<close>

datatype pending = Returned app | Awaiting app

definition ocr_request :: "upload_file \<Rightarrow> string \<Rightarrow> request" where
  "ocr_request f mode =
     \<lparr> url = ''/api/ocr'',
       form = [(''file'', file_field (raw f)), (''mode'', TextField mode)],
       headers = [(''Content-Type'', ''multipart/form-data'')] \<rparr>"

definition submitUpload_begin :: "app \<Rightarrow> pending" where
  "submitUpload_begin s =
     (case fileList s of
        [] \<Rightarrow> Returned (emit [ElMessage MsgWarning msg_select_image] s)
      | f # fs \<Rightarrow>
          Awaiting (emit [AxiosPost (ocr_request f (selectedMode s))] (s\<lparr> loading := True \<rparr>)))"

text \<open>\<^verbatim>\<open>error.response?.data?.detail\<close>.\<close>

definition error_detail :: "axios_error \<Rightarrow> js" where
  "error_detail e = (case response e of None \<Rightarrow> JUndefined | Some d \<Rightarrow> opt_prop ''detail'' d)"

definition submitUpload_resume :: "outcome \<Rightarrow> app \<Rightarrow> app" where
  "submitUpload_resume out s =
     (case out of
        Resolved d \<Rightarrow>
          (if truthy (js_and d (get_prop ''result'' d))
           then emit [ElMessage MsgSuccess msg_recognised]
                  (s\<lparr> result := get_prop ''result'' d, rawResult := get_prop ''result'' d \<rparr>)
           else emit [ElMessage MsgWarning msg_no_result] s)
      | Rejected e \<Rightarrow>
          (case to_string (js_or (error_detail e) (JStr (message e))) of
             Some text \<Rightarrow> emit [ConsoleError e, ElMessage MsgError (msg_failed @ text)] s
           | None \<Rightarrow> emit [ConsoleError e, Uncaught TypeError] s))
     \<lparr> loading := False \<rparr>"

definition submitUpload :: "outcome \<Rightarrow> app \<Rightarrow> app" where
  "submitUpload out s =
     (case submitUpload_begin s of
        Returned s' \<Rightarrow> s'
      | Awaiting s' \<Rightarrow> submitUpload_resume out s')"

text \<open>
  \<^verbatim>\<open>copyResult\<close> (lines 72 to 79). The browser defines \<^verbatim>\<open>navigator.clipboard\<close> only
  in a secure context (https, or http on localhost). Where it is undefined, reading
  \<^verbatim>\<open>writeText\<close> from it on line 74 throws a TypeError before any promise exists, outside
  any \<^verbatim>\<open>try\<close>, so \<^verbatim>\<open>.catch\<close> is never reached. Where it is defined, \<^verbatim>\<open>writeText\<close>
  returns a promise that is fulfilled (the text is on the clipboard) or rejected; an
  argument that cannot be converted to a string gives a rejected promise and no write.
\<close>

datatype clipboard = NoClipboard | WriteFulfilled | WriteRejected

definition copyResult :: "clipboard \<Rightarrow> app \<Rightarrow> app" where
  "copyResult c s =
     (if \<not> truthy (rawResult s) then s
      else if c = NoClipboard then emit [Uncaught TypeError] s
      else (case to_string (rawResult s) of
              None \<Rightarrow> emit [ElMessage MsgError msg_copy_failed] s
            | Some t \<Rightarrow>
                emit [ClipboardWriteText t,
                      if c = WriteFulfilled then ElMessage MsgSuccess msg_copied
                      else ElMessage MsgError msg_copy_failed] s))"

subsection \<open>Sessions\<close>

text \<open>
  The template binds the handlers: the upload component calls \<^verbatim>\<open>handleUploadChange\<close> and
  \<^verbatim>\<open>handleRemove\<close>, the radio group assigns one of its two labels to \<^verbatim>\<open>selectedMode\<close>,
  and the two buttons call \<^verbatim>\<open>submitUpload\<close> and \<^verbatim>\<open>copyResult\<close>. A session is a list of
  these events, together with the settlements of requests. Every event may follow every
  other: the sessions of the page are among them (the upload component, with its limit of
  one file, calls \<^verbatim>\<open>handleUploadChange\<close> only while no file is selected).
\<close>

datatype recognition_mode = Markdown | Ocr

fun label :: "recognition_mode \<Rightarrow> string" where
  "label Markdown = ''markdown''"
| "label Ocr = ''ocr''"

datatype event =
    Change upload_file
  | Remove
  | Pick recognition_mode
  | Submit
  | Settle outcome
  | Copy clipboard

fun unwrap :: "pending \<Rightarrow> app" where
  "unwrap (Returned s) = s"
| "unwrap (Awaiting s) = s"

fun fire :: "event \<Rightarrow> app \<Rightarrow> app" where
  "fire (Change file) s = handleUploadChange file s"
| "fire Remove s = handleRemove s"
| "fire (Pick m) s = s\<lparr> selectedMode := label m \<rparr>"
| "fire Submit s = unwrap (submitUpload_begin s)"
| "fire (Settle out) s = submitUpload_resume out s"
| "fire (Copy c) s = copyResult c s"

definition run :: "event list \<Rightarrow> app \<Rightarrow> app" where
  "run evs s = fold fire evs s"

subsection \<open>Observations on a trace, and the sessions the examples use\<close>

fun requests :: "effect list \<Rightarrow> request list" where
  "requests [] = []"
| "requests (AxiosPost r # es) = r # requests es"
| "requests (e # es) = requests es"

fun clipboard_writes :: "effect list \<Rightarrow> string list" where
  "clipboard_writes [] = []"
| "clipboard_writes (ClipboardWriteText t # es) = t # clipboard_writes es"
| "clipboard_writes (e # es) = clipboard_writes es"

fun messages :: "effect list \<Rightarrow> (level \<times> string) list" where
  "messages [] = []"
| "messages (ElMessage l m # es) = (l, m) # messages es"
| "messages (e # es) = messages es"

text \<open>A request with its \<^verbatim>\<open>mode\<close> field taken out, and the field alone.\<close>

definition without_mode :: "request \<Rightarrow> request" where
  "without_mode r = r\<lparr> form := filter (\<lambda>kv. fst kv \<noteq> ''mode'') (form r) \<rparr>"

definition mode_field :: "request \<Rightarrow> form_value option" where
  "mode_field r = map_of (form r) ''mode''"

text \<open>A response body with its \<^verbatim>\<open>result\<close> property taken out.\<close>

definition without_result :: "js \<Rightarrow> js" where
  "without_result d =
     (case d of JObj kvs \<Rightarrow> JObj (filter (\<lambda>kv. fst kv \<noteq> ''result'') kvs) | _ \<Rightarrow> d)"

definition photo :: upload_file where
  "photo = \<lparr> name = ''photo.png'', raw = Some ''PNG'' \<rparr>"

text \<open>A file is selected, submitted, and the server answers \<^verbatim>\<open>{result: "abc"}\<close>.\<close>

definition abc_shown :: app where
  "abc_shown =
     run [Change photo, Submit, Settle (Resolved (JObj [(''result'', JStr ''abc'')]))] init"

section \<open>Properties\<close>

subsection \<open>What each handler leaves alone\<close>

lemma trace_emit [simp]: "trace (emit es s) = trace s @ es"
  by (simp add: emit_def)

lemma emit_cells [simp]:
  "fileList (emit es s) = fileList s"
  "result (emit es s) = result s"
  "rawResult (emit es s) = rawResult s"
  "loading (emit es s) = loading s"
  "selectedMode (emit es s) = selectedMode s"
  by (simp_all add: emit_def)

lemma revoked_urls_append: "revoked_urls (xs @ ys) = revoked_urls xs @ revoked_urls ys"
  by (induction xs rule: revoked_urls.induct) simp_all

lemma created_urls_append: "created_urls (xs @ ys) = created_urls xs @ created_urls ys"
  by (induction xs rule: created_urls.induct) simp_all

lemma messages_append: "messages (xs @ ys) = messages xs @ messages ys"
  by (induction xs rule: messages.induct) simp_all

lemma requests_append: "requests (xs @ ys) = requests xs @ requests ys"
  by (induction xs rule: requests.induct) simp_all

lemma clipboard_writes_append:
  "clipboard_writes (xs @ ys) = clipboard_writes xs @ clipboard_writes ys"
  by (induction xs rule: clipboard_writes.induct) simp_all

lemma run_Nil [simp]: "run [] s = s"
  by (simp add: run_def)

lemma run_Cons [simp]: "run (e # evs) s = run evs (fire e s)"
  by (simp add: run_def)

lemma run_append: "run (xs @ ys) s = run ys (run xs s)"
  by (simp add: run_def)

lemma begin_cells:
  "fileList (unwrap (submitUpload_begin s)) = fileList s"
  "result (unwrap (submitUpload_begin s)) = result s"
  "rawResult (unwrap (submitUpload_begin s)) = rawResult s"
  "selectedMode (unwrap (submitUpload_begin s)) = selectedMode s"
  by (simp_all add: submitUpload_begin_def split: list.split)

lemma resume_cells:
  "fileList (submitUpload_resume out s) = fileList s"
  "selectedMode (submitUpload_resume out s) = selectedMode s"
  "\<not> loading (submitUpload_resume out s)"
  by (cases out; simp add: submitUpload_resume_def split: option.split)+


lemma copyResult_cells:
  "fileList (copyResult c s) = fileList s"
  "result (copyResult c s) = result s"
  "rawResult (copyResult c s) = rawResult s"
  "selectedMode (copyResult c s) = selectedMode s"
  by (simp_all add: copyResult_def split: option.split)

subsection \<open>The two halves of a submission\<close>

lemma submitUpload_begin_Cons:
  "fileList s = f # fs \<Longrightarrow>
   submitUpload_begin s =
     Awaiting (s\<lparr> loading := True,
                  trace := trace s @ [AxiosPost (ocr_request f (selectedMode s))] \<rparr>)"
  by (simp add: submitUpload_begin_def emit_def)

lemma submitUpload_unfold:
  "submitUpload out s =
     (case fileList s of
        [] \<Rightarrow> s\<lparr> trace := trace s @ [ElMessage MsgWarning msg_select_image] \<rparr>
      | f # fs \<Rightarrow> submitUpload_resume out
          (s\<lparr> loading := True,
              trace := trace s @ [AxiosPost (ocr_request f (selectedMode s))] \<rparr>))"
  by (simp add: submitUpload_def submitUpload_begin_def emit_def split: list.split)

lemma get_prop_truthy: "get_prop k d \<noteq> JUndefined \<Longrightarrow> truthy d"
  by (cases d) simp_all

lemma resume_no_result:
  "\<not> truthy (get_prop ''result'' d) \<Longrightarrow>
   submitUpload_resume (Resolved d) s =
     s\<lparr> loading := False, trace := trace s @ [ElMessage MsgWarning msg_no_result] \<rparr>"
  by (simp add: submitUpload_resume_def js_and_def emit_def)


lemma opt_prop_text: "get_prop k b = JStr t \<Longrightarrow> opt_prop k b = JStr t"
  by (cases b) simp_all


lemma get_prop_without_result: "get_prop ''result'' (without_result d) = JUndefined"
proof (cases d)
  case (JObj kvs)
  have "map_of (rev (filter (\<lambda>kv. fst kv \<noteq> ''result'') kvs)) ''result'' = None"
    by (simp add: map_of_eq_None_iff image_iff)
  then show ?thesis
    using JObj by (simp add: without_result_def)
qed (simp_all add: without_result_def)

lemma abc_shown_raw: "rawResult abc_shown = JStr ''abc''"
  by (simp add: abc_shown_def photo_def init_def handleUploadChange_def
      submitUpload_begin_def submitUpload_resume_def emit_def js_and_def)

subsection \<open>Invariants of a session\<close>

lemma fire_urls:
  "created_urls (trace (fire e s)) = created_urls (trace s)"
  "revoked_urls (trace (fire e s)) = revoked_urls (trace s)"
proof -
  have "created_urls (trace (fire e s)) = created_urls (trace s)
      \<and> revoked_urls (trace (fire e s)) = revoked_urls (trace s)"
  proof (cases e)
    case Submit
    then show ?thesis
      by (simp add: submitUpload_begin_def created_urls_append revoked_urls_append
          split: list.split)
  next
    case (Settle out)
    then show ?thesis
      by (cases out)
        (simp_all add: submitUpload_resume_def created_urls_append revoked_urls_append
          split: option.split)
  next
    case (Copy c)
    then show ?thesis
      by (simp add: copyResult_def created_urls_append revoked_urls_append
          split: option.split)
  qed (simp_all add: handleUploadChange_def handleRemove_def)
  then show "created_urls (trace (fire e s)) = created_urls (trace s)"
    and "revoked_urls (trace (fire e s)) = revoked_urls (trace s)"
    by simp_all
qed

text \<open>
  No event of a session creates or revokes an object URL: the script's only call of
  \<^verbatim>\<open>URL.createObjectURL\<close> is in the getter that is never run, and it has no call of
  \<^verbatim>\<open>URL.revokeObjectURL\<close>.
\<close>

lemma script_touches_no_url:
  "created_urls (trace (run evs init)) = [] \<and> revoked_urls (trace (run evs init)) = []"
proof -
  have "created_urls (trace (run evs s)) = created_urls (trace s)
      \<and> revoked_urls (trace (run evs s)) = revoked_urls (trace s)" for s
    by (induction evs arbitrary: s) (simp_all add: fire_urls)
  then show ?thesis
    by (simp add: init_def)
qed

lemma fire_fileList:
  assumes "length (fileList s) \<le> 1"
  shows "length (fileList (fire e s)) \<le> 1"
  using assms
  by (cases e)
    (simp_all add: handleUploadChange_def handleRemove_def begin_cells
      resume_cells copyResult_cells)

lemma run_fileList:
  assumes "length (fileList s) \<le> 1"
  shows "length (fileList (run evs s)) \<le> 1"
  using assms
proof (induction evs arbitrary: s)
  case Nil
  then show ?case by simp
next
  case (Cons e evs)
  have "length (fileList (fire e s)) \<le> 1"
    using Cons.prems by (rule fire_fileList)
  then have "length (fileList (run evs (fire e s))) \<le> 1"
    by (rule Cons.IH)
  then show ?case by simp
qed

lemma fire_selectedMode:
  assumes "\<exists>m. selectedMode s = label m"
  shows "\<exists>m. selectedMode (fire e s) = label m"
  using assms
  by (cases e)
    (auto simp add: handleUploadChange_def handleRemove_def begin_cells
      resume_cells copyResult_cells)

lemma run_selectedMode:
  assumes "\<exists>m. selectedMode s = label m"
  shows "\<exists>m. selectedMode (run evs s) = label m"
  using assms
proof (induction evs arbitrary: s)
  case Nil
  then show ?case by simp
next
  case (Cons e evs)
  have "\<exists>m. selectedMode (fire e s) = label m"
    using Cons.prems by (rule fire_selectedMode)
  then have "\<exists>m. selectedMode (run evs (fire e s)) = label m"
    by (rule Cons.IH)
  then show ?case by simp
qed

lemma fire_result_raw:
  assumes "result s = rawResult s"
  shows "result (fire e s) = rawResult (fire e s)"
proof (cases e)
  case (Settle out)
  then show ?thesis
    using assms by (cases out) (simp_all add: submitUpload_resume_def split: option.split)
qed (simp_all add: assms handleUploadChange_def handleRemove_def begin_cells
    copyResult_cells)

text \<open>
  The two cells \<^verbatim>\<open>result\<close> and \<^verbatim>\<open>rawResult\<close> are always assigned together, so the
  rendered view is the transform applied to the raw text, whatever the transform is.
\<close>

lemma rendered_from_raw:
  "renderedMarkdown marked (run evs init) = marked (rawResult (run evs init))"
proof -
  have "result s = rawResult s \<Longrightarrow> result (run evs s) = rawResult (run evs s)" for s
  proof (induction evs arbitrary: s)
    case Nil
    then show ?case by simp
  next
    case (Cons e evs)
    have "result (fire e s) = rawResult (fire e s)"
      using Cons.prems by (rule fire_result_raw)
    then have "result (run evs (fire e s)) = rawResult (run evs (fire e s))"
      by (rule Cons.IH)
    then show ?case by simp
  qed
  moreover have "result init = rawResult init"
    by (simp add: init_def)
  ultimately show ?thesis
    by (simp add: renderedMarkdown_def)
qed

section \<open>The claims\<close>

subsection \<open>C2: submitting with no file selected\<close>

text \<open>
  C2: in every state with no selected file, \<^verbatim>\<open>submitUpload\<close> returns at once with the
  warning "select an image first" as its only effect: it sends no request and leaves
  \<^verbatim>\<open>result\<close> and \<^verbatim>\<open>rawResult\<close> (and every other cell) as they were.
\<close>

theorem submit_without_file:
  assumes "fileList s = []"
  shows "submitUpload_begin s =
           Returned (s\<lparr> trace := trace s @ [ElMessage MsgWarning msg_select_image] \<rparr>)
    \<and> submitUpload out s = s\<lparr> trace := trace s @ [ElMessage MsgWarning msg_select_image] \<rparr>
    \<and> requests (trace (submitUpload out s)) = requests (trace s)
    \<and> result (submitUpload out s) = result s
    \<and> rawResult (submitUpload out s) = rawResult s"
  using assms by (simp add: submitUpload_def submitUpload_begin_def emit_def requests_append)

theorem submit_without_file_witness:
  "fileList init = []
   \<and> submitUpload (Resolved (JObj [(''result'', JStr ''abc'')])) init =
       init\<lparr> trace := [ElMessage MsgWarning msg_select_image] \<rparr>
   \<and> requests (trace (submitUpload (Resolved (JObj [(''result'', JStr ''abc'')])) init)) = []
   \<and> rawResult (submitUpload (Resolved (JObj [(''result'', JStr ''abc'')])) init) = JStr []"
  using submit_without_file [of init "Resolved (JObj [(''result'', JStr ''abc'')])"]
  by (simp add: init_def)

subsection \<open>C3: the in-flight flag\<close>

text \<open>
  C3: an invocation of \<^verbatim>\<open>submitUpload\<close> with a file selected sends one request and waits
  with \<^verbatim>\<open>loading\<close> true; when the request settles, whatever the outcome and whatever
  ran in between, the rest of the invocation ends with \<^verbatim>\<open>loading\<close> false.
\<close>

theorem submit_clears_loading:
  assumes "fileList s \<noteq> []"
  shows "(\<exists>s1. submitUpload_begin s = Awaiting s1 \<and> loading s1
           \<and> requests (trace s1) =
               requests (trace s) @ [ocr_request (hd (fileList s)) (selectedMode s)])
    \<and> \<not> loading (submitUpload_resume out s2)
    \<and> \<not> loading (submitUpload out s)"
proof -
  obtain f fs where fl: "fileList s = f # fs"
    using assms by (cases "fileList s") auto
  have r: "\<not> loading (submitUpload_resume out' s')" for out' s'
    by (rule resume_cells)
  show ?thesis
    using fl r by (simp add: submitUpload_def submitUpload_begin_Cons requests_append)
qed

theorem submit_clears_loading_witness:
  "fileList (handleUploadChange photo init) \<noteq> []
   \<and> submitUpload_begin (handleUploadChange photo init) =
       Awaiting (init\<lparr> fileList := [photo], loading := True,
         trace := [AxiosPost (ocr_request photo ''markdown'')] \<rparr>)
   \<and> \<not> loading (submitUpload (Rejected \<lparr> message = ''Network Error'', response = None \<rparr>)
         (handleUploadChange photo init))"
  using submit_clears_loading [of "handleUploadChange photo init"
      "Rejected \<lparr> message = ''Network Error'', response = None \<rparr>"]
  by (simp add: init_def handleUploadChange_def submitUpload_begin_def emit_def)

subsection \<open>C4: a response with a result\<close>

text \<open>
  C4 as stated: for every result text \<open>s\<close> in the response, both cells become \<open>s\<close> and
  success is reported. It fails for the empty text: with "abc" shown, the response
  \<^verbatim>\<open>{result: ""}\<close> leaves both cells at "abc" and reports the "no result" warning.
\<close>

theorem empty_result_counterexample:
  "get_prop ''result'' (JObj [(''result'', JStr [])]) = JStr []
   \<and> rawResult (submitUpload (Resolved (JObj [(''result'', JStr [])])) abc_shown) = JStr ''abc''
   \<and> result (submitUpload (Resolved (JObj [(''result'', JStr [])])) abc_shown) = JStr ''abc''
   \<and> last (trace (submitUpload (Resolved (JObj [(''result'', JStr [])])) abc_shown)) =
       ElMessage MsgWarning msg_no_result"
  by (simp add: abc_shown_def photo_def init_def handleUploadChange_def submitUpload_def
      submitUpload_begin_def submitUpload_resume_def emit_def js_and_def)

text \<open>
  C4, amended: for every response whose \<^verbatim>\<open>result\<close> property is a non-empty text \<open>t\<close>,
  the invocation sets \<^verbatim>\<open>result\<close> and \<^verbatim>\<open>rawResult\<close> to \<open>t\<close>, reports success and changes
  nothing else but \<^verbatim>\<open>loading\<close>; in particular \<^verbatim>\<open>{result: "abc"}\<close> makes the raw result
  "abc".
\<close>

theorem submit_success_sets_result:
  assumes "get_prop ''result'' d = JStr t" and "t \<noteq> []"
  shows "submitUpload_resume (Resolved d) s =
           s\<lparr> result := JStr t, rawResult := JStr t, loading := False,
              trace := trace s @ [ElMessage MsgSuccess msg_recognised] \<rparr>
    \<and> (fileList s \<noteq> [] \<longrightarrow>
         result (submitUpload (Resolved d) s) = JStr t
         \<and> rawResult (submitUpload (Resolved d) s) = JStr t
         \<and> last (trace (submitUpload (Resolved d) s)) = ElMessage MsgSuccess msg_recognised)"
proof -
  have td: "truthy d"
    using assms(1) get_prop_truthy [of "''result''" d] by simp
  have res: "submitUpload_resume (Resolved d) s' =
           s'\<lparr> result := JStr t, rawResult := JStr t, loading := False,
              trace := trace s' @ [ElMessage MsgSuccess msg_recognised] \<rparr>" for s'
    using assms td by (simp add: submitUpload_resume_def js_and_def emit_def)
  show ?thesis
  proof (intro conjI impI)
    show "submitUpload_resume (Resolved d) s =
           s\<lparr> result := JStr t, rawResult := JStr t, loading := False,
              trace := trace s @ [ElMessage MsgSuccess msg_recognised] \<rparr>"
      by (rule res)
  next
    assume "fileList s \<noteq> []"
    then obtain f fs where fl: "fileList s = f # fs"
      by (cases "fileList s") auto
    have su: "submitUpload (Resolved d) s = submitUpload_resume (Resolved d)
        (s\<lparr> loading := True, trace := trace s @ [AxiosPost (ocr_request f (selectedMode s))] \<rparr>)"
      using fl by (simp add: submitUpload_unfold)
    show "result (submitUpload (Resolved d) s) = JStr t" by (simp add: su res)
    show "rawResult (submitUpload (Resolved d) s) = JStr t" by (simp add: su res)
    show "last (trace (submitUpload (Resolved d) s)) = ElMessage MsgSuccess msg_recognised"
      by (simp add: su res)
  qed
qed

theorem submit_success_sets_result_witness:
  "get_prop ''result'' (JObj [(''result'', JStr ''abc'')]) = JStr ''abc''
   \<and> ''abc'' \<noteq> []
   \<and> fileList (handleUploadChange photo init) \<noteq> []
   \<and> rawResult (submitUpload (Resolved (JObj [(''result'', JStr ''abc'')]))
        (handleUploadChange photo init)) = JStr ''abc''
   \<and> result (submitUpload (Resolved (JObj [(''result'', JStr ''abc'')]))
        (handleUploadChange photo init)) = JStr ''abc''"
  using submit_success_sets_result [of "JObj [(''result'', JStr ''abc'')]" "''abc''"
      "handleUploadChange photo init"]
  by (simp add: handleUploadChange_def)

subsection \<open>C5: responses without a result, and errors\<close>



subsection \<open>C6: one file, and a cleared result\<close>

text \<open>
  C6: in every session the file list holds at most one file, and right after a file is
  selected or removed, whatever happened before, \<^verbatim>\<open>result\<close> and \<^verbatim>\<open>rawResult\<close> are the
  empty text; the file list is then the new file alone, or empty.
\<close>

theorem one_file_and_cleared_result:
  "length (fileList (run evs init)) \<le> 1
   \<and> fileList (run (evs @ [Change file]) s) = [file]
   \<and> result (run (evs @ [Change file]) s) = JStr []
   \<and> rawResult (run (evs @ [Change file]) s) = JStr []
   \<and> fileList (run (evs @ [Remove]) s) = []
   \<and> result (run (evs @ [Remove]) s) = JStr []
   \<and> rawResult (run (evs @ [Remove]) s) = JStr []"
proof -
  have "length (fileList init) \<le> 1"
    by (simp add: init_def)
  then have "length (fileList (run evs init)) \<le> 1"
    by (rule run_fileList)
  then show ?thesis
    by (simp add: run_append handleUploadChange_def handleRemove_def)
qed

theorem one_file_and_cleared_result_witness:
  "length (fileList (run [Change photo, Change photo, Submit] init)) \<le> 1
   \<and> rawResult (run ([Change photo, Submit,
        Settle (Resolved (JObj [(''result'', JStr ''abc'')]))] @ [Remove]) init) = JStr []
   \<and> rawResult abc_shown = JStr ''abc''"
  using one_file_and_cleared_result [of "[Change photo, Change photo, Submit]" photo init]
    one_file_and_cleared_result [of "[Change photo, Submit,
        Settle (Resolved (JObj [(''result'', JStr ''abc'')]))]" photo init]
    abc_shown_raw
  by simp

subsection \<open>C8: copying the result\<close>

text \<open>
  Where the browser provides the clipboard, \<^verbatim>\<open>copyResult\<close> does what is asked of it:
  with an empty raw text it changes nothing and makes no call; with a non-empty raw text
  \<open>t\<close> it writes exactly \<open>t\<close>, and then reports "copied" when the write is fulfilled and
  "copy failed" when it is rejected.
\<close>

lemma copy_result_with_clipboard:
  "(rawResult s = JStr [] \<longrightarrow> copyResult c s = s)
   \<and> (rawResult s = JStr t \<and> t \<noteq> [] \<longrightarrow>
        copyResult WriteFulfilled s =
          s\<lparr> trace := trace s @ [ClipboardWriteText t, ElMessage MsgSuccess msg_copied] \<rparr>
        \<and> copyResult WriteRejected s =
          s\<lparr> trace := trace s @ [ClipboardWriteText t, ElMessage MsgError msg_copy_failed] \<rparr>)"
  by (simp add: copyResult_def emit_def)

text \<open>
  C8: a clipboard failure is to be caught and reported to the user, never propagated. The
  handler fails to do so where the browser provides no clipboard (a page served over
  plain http from another host): with "abc" shown, the read of \<^verbatim>\<open>writeText\<close> from the
  undefined \<^verbatim>\<open>navigator.clipboard\<close> throws, nothing is written, no message is shown and
  the TypeError leaves the handler.
\<close>

theorem copy_without_clipboard_uncaught:
  "rawResult abc_shown = JStr ''abc''
   \<and> copyResult NoClipboard abc_shown =
       abc_shown\<lparr> trace := trace abc_shown @ [Uncaught TypeError] \<rparr>
   \<and> clipboard_writes (trace (copyResult NoClipboard abc_shown)) = []
   \<and> messages (trace (copyResult NoClipboard abc_shown)) = messages (trace abc_shown)"
proof -
  have t: "trace abc_shown =
      [AxiosPost (ocr_request photo ''markdown''), ElMessage MsgSuccess msg_recognised]"
    by (simp add: abc_shown_def photo_def init_def handleUploadChange_def
        submitUpload_begin_def submitUpload_resume_def emit_def js_and_def)
  have c: "copyResult NoClipboard abc_shown =
       abc_shown\<lparr> trace := trace abc_shown @ [Uncaught TypeError] \<rparr>"
    by (simp add: copyResult_def abc_shown_raw emit_def)
  show ?thesis
    by (simp add: abc_shown_raw c t)
qed

subsection \<open>C9: the mode of a request\<close>

text \<open>
  C9: two invocations of \<^verbatim>\<open>submitUpload\<close> with the same selected file, under the modes
  \<open>m1\<close> and \<open>m2\<close>, each send one request; the two requests are equal once their
  \<^verbatim>\<open>mode\<close> fields are taken out (same URL, same headers, same file), the field carries
  the label of the mode selected at the time, which is "markdown" or "ocr", and the
  requests differ exactly when the modes do. In every session the selected mode is one
  of the two labels.
\<close>

theorem requests_differ_only_in_mode:
  assumes "fileList s1 = f # fs1" and "fileList s2 = f # fs2"
    and "selectedMode s1 = label m1" and "selectedMode s2 = label m2"
  shows "\<exists>t1 t2 r1 r2.
      submitUpload_begin s1 = Awaiting t1 \<and> trace t1 = trace s1 @ [AxiosPost r1]
      \<and> submitUpload_begin s2 = Awaiting t2 \<and> trace t2 = trace s2 @ [AxiosPost r2]
      \<and> without_mode r1 = without_mode r2
      \<and> mode_field r1 = Some (TextField (label m1))
      \<and> mode_field r2 = Some (TextField (label m2))
      \<and> (r1 = r2) = (m1 = m2)
      \<and> (label m1 = ''markdown'' \<or> label m1 = ''ocr'')
      \<and> (label m2 = ''markdown'' \<or> label m2 = ''ocr'')
      \<and> (\<exists>m. selectedMode (run evs init) = label m)"
proof -
  have l: "label m = ''markdown'' \<or> label m = ''ocr''" for m
    by (cases m) simp_all
  have inj: "(label a = label b) = (a = b)" for a b
    by (cases a; cases b) simp_all
  have "\<exists>m. selectedMode init = label m"
    by (rule exI [of _ Markdown]) (simp add: init_def)
  then have r: "\<exists>m. selectedMode (run evs init) = label m"
    by (rule run_selectedMode)
  show ?thesis
    using assms l [of m1] l [of m2] r
    by (simp add: submitUpload_begin_Cons ocr_request_def without_mode_def mode_field_def inj)
qed

theorem requests_differ_only_in_mode_witness:
  "fileList (run [Change photo] init) = photo # []
   \<and> fileList (run [Change photo, Pick Ocr] init) = photo # []
   \<and> selectedMode (run [Change photo] init) = label Markdown
   \<and> selectedMode (run [Change photo, Pick Ocr] init) = label Ocr
   \<and> (\<exists>t1 t2 r1 r2.
      submitUpload_begin (run [Change photo] init) = Awaiting t1
      \<and> trace t1 = trace (run [Change photo] init) @ [AxiosPost r1]
      \<and> submitUpload_begin (run [Change photo, Pick Ocr] init) = Awaiting t2
      \<and> trace t2 = trace (run [Change photo, Pick Ocr] init) @ [AxiosPost r2]
      \<and> without_mode r1 = without_mode r2
      \<and> mode_field r1 = Some (TextField ''markdown'')
      \<and> mode_field r2 = Some (TextField ''ocr'')
      \<and> r1 \<noteq> r2)"
proof -
  have a: "fileList (run [Change photo] init) = photo # []"
    and b: "fileList (run [Change photo, Pick Ocr] init) = photo # []"
    and c: "selectedMode (run [Change photo] init) = label Markdown"
    and d: "selectedMode (run [Change photo, Pick Ocr] init) = label Ocr"
    by (simp_all add: handleUploadChange_def init_def)
  show ?thesis
    using requests_differ_only_in_mode [OF a b c d, of "[]"] a b c d
    by simp blast
qed

subsection \<open>C10: a falsy result\<close>

text \<open>
  C10: when the \<^verbatim>\<open>result\<close> property of the response is falsy (the empty text, zero,
  false, null), the invocation does what it does for the same response without the
  property: it reports the "no result" warning and leaves \<^verbatim>\<open>result\<close> and
  \<^verbatim>\<open>rawResult\<close> as they were.
\<close>

theorem falsy_result_is_no_result:
  assumes "\<not> truthy (get_prop ''result'' d)"
  shows "submitUpload_resume (Resolved d) s =
           s\<lparr> loading := False, trace := trace s @ [ElMessage MsgWarning msg_no_result] \<rparr>
    \<and> submitUpload_resume (Resolved d) s = submitUpload_resume (Resolved (without_result d)) s
    \<and> submitUpload (Resolved d) s = submitUpload (Resolved (without_result d)) s
    \<and> result (submitUpload (Resolved d) s) = result s
    \<and> rawResult (submitUpload (Resolved d) s) = rawResult s"
proof -
  have w: "\<not> truthy (get_prop ''result'' (without_result d))"
    by (simp add: get_prop_without_result)
  show ?thesis
    by (simp add: resume_no_result [OF assms] resume_no_result [OF w] submitUpload_unfold
        split: list.split)
qed

theorem falsy_result_is_no_result_witness:
  "\<not> truthy (get_prop ''result'' (JObj [(''result'', JStr [])]))
   \<and> submitUpload_resume (Resolved (JObj [(''result'', JStr [])])) abc_shown =
       abc_shown\<lparr> loading := False,
         trace := trace abc_shown @ [ElMessage MsgWarning msg_no_result] \<rparr>
   \<and> submitUpload (Resolved (JObj [(''result'', JStr [])])) abc_shown =
       submitUpload (Resolved (JObj [])) abc_shown
   \<and> rawResult (submitUpload (Resolved (JObj [(''result'', JStr [])])) abc_shown) =
       rawResult abc_shown
   \<and> \<not> truthy (get_prop ''result'' (JObj [(''result'', JNum False ''0'')]))
   \<and> rawResult (submitUpload (Resolved (JObj [(''result'', JNum False ''0'')])) abc_shown) =
       rawResult abc_shown"
proof -
  have e: "\<not> truthy (get_prop ''result'' (JObj [(''result'', JStr [])]))"
    by simp
  have z: "\<not> truthy (get_prop ''result'' (JObj [(''result'', JNum False ''0'')]))"
    by simp
  have w: "without_result (JObj [(''result'', JStr [])]) = JObj []"
    by (simp add: without_result_def)
  note a = falsy_result_is_no_result [OF e, of abc_shown, unfolded w]
  note b = falsy_result_is_no_result [OF z, of abc_shown]
  show ?thesis
    using a b e z by blast
qed

end
